theory Spec2Isabelle
  imports Complex_Main
begin

section \<open>Python values shared by the notebooks\<close>

text \<open>
  The repository consists of three Jupyter notebooks under \<open>examples/\<close>:
  \<open>BigBrain.ipynb\<close>, \<open>Probabilistic_assignment.ipynb\<close> and \<open>Walkthrough.ipynb\<close>.
  Their code cells are Python, run from top to bottom. An exception raised by a cell is a
  value of \<open>py_error\<close>, and a computation that may raise returns \<open>py_error + 'a\<close>
  with \<open>Inl\<close> for the exception.
\<close>

datatype py_error =
    ValueError string
  | KeyError
  | IndexError
  | TypeError
  | RuntimeError string

text \<open>A Python \<open>dict\<close> is a map; \<open>d[k] = v\<close>, \<open>k in d\<close> and \<open>d[k]\<close> are written
  out, the last one with its \<open>KeyError\<close>.\<close>

definition dict_setitem :: "('k \<rightharpoonup> 'v) \<Rightarrow> 'k \<Rightarrow> 'v \<Rightarrow> ('k \<rightharpoonup> 'v)" where
  "dict_setitem d k v = d(k \<mapsto> v)"

definition dict_contains :: "('k \<rightharpoonup> 'v) \<Rightarrow> 'k \<Rightarrow> bool" where
  "dict_contains d k = (case d k of None \<Rightarrow> False | Some v \<Rightarrow> True)"

definition dict_getitem :: "('k \<rightharpoonup> 'v) \<Rightarrow> 'k \<Rightarrow> py_error + 'v" where
  "dict_getitem d k = (case d k of None \<Rightarrow> Inl KeyError | Some v \<Rightarrow> Inr v)"

text \<open>\<open>enumerate(xs)\<close> pairs every element with its index, from 0.\<close>

definition enumerate_list :: "'a list \<Rightarrow> (nat \<times> 'a) list" where
  "enumerate_list xs = zip [0..<length xs] xs"

text \<open>\<open>sep.join(parts)\<close> and \<open>text.replace(old, new)\<close> for one-character \<open>old\<close> and
  \<open>new\<close>.\<close>

fun str_join :: "string \<Rightarrow> string list \<Rightarrow> string" where
  "str_join sep [] = []"
| "str_join sep [x] = x"
| "str_join sep (x # v # va) = x @ sep @ str_join sep (v # va)"

definition str_replace :: "char \<Rightarrow> char \<Rightarrow> string \<Rightarrow> string" where
  "str_replace old new text = map (\<lambda>c. if c = old then new else c) text"

text \<open>\<open>text.startswith(sub)\<close> and \<open>sub in text\<close>.\<close>

fun str_startswith :: "string \<Rightarrow> string \<Rightarrow> bool" where
  "str_startswith [] text = True"
| "str_startswith (c # sub) [] = False"
| "str_startswith (c # sub) (d # text) = (c = d \<and> str_startswith sub text)"

fun str_contains :: "string \<Rightarrow> string \<Rightarrow> bool" where
  "str_contains sub [] = (sub = [])"
| "str_contains sub (d # text) = (str_startswith sub (d # text) \<or> str_contains sub text)"

section \<open>Probabilistic\_assignment.ipynb: \<open>plot_connectivity_profiles\<close>\<close>

text \<open>
  \<^verbatim>\<open>
  def plot_connectivity_profiles(profiles,target_regions):
      N = len(target_regions)
      xticks = range(N)
      fig  = plt.figure()
      ax1  = fig.add_subplot(211)
      ax1.set_xticks(xticks)
      ax1.set_xticklabels([r.name for r in target_regions],
                          rotation=45,fontsize=10,ha='right')
      for p in profiles:
          probs = {region:prob for prob,region in p}
          y = [probs[r] if r in probs else 0
               for r in target_regions ]
          strengths = []
          ax1.plot(xticks,y,'.-',lw=1)
      ax1.grid(True)
      return fig
  \<close>
  A decoded profile is a list of (strength, region) pairs. Regions are library objects:
  their type is a parameter \<open>'r\<close> (HOL equality stands for the equality Python uses on
  dictionary keys), and \<open>r.name\<close> is the parameter \<open>name\<close>. Strengths are numbers of a
  type \<open>'s\<close> with a zero, the literal \<open>0\<close> of the source. The figure records what the
  plotting toolkit was given: the ticks, the tick labels, one line per \<open>ax1.plot\<close> call
  and the grid flag.
\<close>

record 's figure =
  xticks :: "nat list"
  xticklabels :: "string list"
  lines :: "(nat list \<times> 's list) list"
  grid :: bool

text \<open>The dict comprehension inserts the pairs from left to right: a later pair
  overwrites an earlier one with the same region.\<close>

definition probs :: "('s \<times> 'r) list \<Rightarrow> ('r \<rightharpoonup> 's)" where
  "probs p = foldl (\<lambda>d (prob, region). dict_setitem d region prob) Map.empty p"

text \<open>The list comprehension \<open>y = [probs[r] if r in probs else 0 for r in target_regions]\<close>
  over a dictionary \<open>d\<close>; it raises what \<open>d[r]\<close> raises.\<close>

fun y_values :: "('r \<rightharpoonup> 's::zero) \<Rightarrow> 'r list \<Rightarrow> py_error + 's list" where
  "y_values d [] = Inr []"
| "y_values d (r # rs) =
     (case (if dict_contains d r then dict_getitem d r else Inr 0) of
        Inl e \<Rightarrow> Inl e
      | Inr v \<Rightarrow> (case y_values d rs of Inl e \<Rightarrow> Inl e | Inr vs \<Rightarrow> Inr (v # vs)))"

text \<open>The loop \<open>for p in profiles\<close>: one \<open>ax1.plot(xticks, y)\<close> per profile.\<close>

fun plot_profiles ::
  "'s::zero figure \<Rightarrow> ('s \<times> 'r) list list \<Rightarrow> 'r list \<Rightarrow> py_error + 's figure" where
  "plot_profiles ax1 [] target_regions = Inr ax1"
| "plot_profiles ax1 (p # ps) target_regions =
     (case y_values (probs p) target_regions of
        Inl e \<Rightarrow> Inl e
      | Inr ys \<Rightarrow>
          plot_profiles (ax1\<lparr>lines := lines ax1 @ [(xticks ax1, ys)]\<rparr>) ps target_regions)"

definition plot_connectivity_profiles ::
  "('r \<Rightarrow> string) \<Rightarrow> ('s::zero \<times> 'r) list list \<Rightarrow> 'r list \<Rightarrow> py_error + 's figure" where
  "plot_connectivity_profiles name profiles target_regions =
     (let N = length target_regions;
          ticks = [0..<N];
          ax1 = \<lparr>xticks = ticks, xticklabels = map name target_regions,
                 lines = [], grid = False\<rparr>
      in case plot_profiles ax1 profiles target_regions of
           Inl e \<Rightarrow> Inl e
         | Inr ax \<Rightarrow> Inr (ax\<lparr>grid := True\<rparr>))"

text \<open>What the statement about the plotted values says, in its own words: the strength
  of the last occurrence of the region in the profile, and 0 when the region does not
  occur.\<close>

definition last_strength :: "('s::zero \<times> 'r) list \<Rightarrow> 'r \<Rightarrow> 's" where
  "last_strength p r =
     (case filter (\<lambda>(s, r'). r' = r) p of [] \<Rightarrow> 0 | e # es \<Rightarrow> fst (last (e # es)))"

text \<open>The numbers handed to \<open>ax1.plot\<close> by a run, and the strengths the library returned
  in the profiles.\<close>

definition plotted_values :: "py_error + 's figure \<Rightarrow> 's list" where
  "plotted_values res = (case res of Inl e \<Rightarrow> [] | Inr fig \<Rightarrow> concat (map snd (lines fig)))"

definition returned_strengths :: "('s \<times> 'r) list list \<Rightarrow> 's list" where
  "returned_strengths profiles = concat (map (map fst) profiles)"

section \<open>BigBrain.ipynb: \<open>plot_roi\<close> and the resolution cell\<close>

text \<open>
  \<^verbatim>\<open>
  plot_roi = lambda img,title : plotting.view_img(
      img, bg_img=template,
      title=title,
      resampling_interpolation='nearest',
      symmetric_cmap=False,cmap='Paired')
  \<close>
  The record holds the arguments of the \<open>plotting.view_img\<close> call; \<open>template\<close> is the
  notebook's global variable.
\<close>

record 'i view_img_call =
  img :: 'i
  bg_img :: 'i
  title :: string
  resampling_interpolation :: string
  symmetric_cmap :: bool
  cmap :: string

definition plot_roi :: "'i \<Rightarrow> 'i \<Rightarrow> string \<Rightarrow> 'i view_img_call" where
  "plot_roi template roi text =
     \<lparr>img = roi, bg_img = template, title = text,
      resampling_interpolation = ''nearest'', symmetric_cmap = False, cmap = ''Paired''\<rparr>"

text \<open>
  \<^verbatim>\<open>
  try:
      siibra.spaces.BIG_BRAIN.get_template(resolution=20.)
  except ValueError as e:
      print("This didn't work!",str(e))
  \<close>
  The \<open>try\<close> statement around the result of the call: a \<open>ValueError\<close> is caught and
  one line is printed (\<open>print\<close> separates its two arguments by a blank); any other
  exception leaves the cell; without an exception nothing is printed. The printed lines
  are the state.
\<close>

definition except_ValueError :: "py_error + 'a \<Rightarrow> string list \<Rightarrow> py_error + string list" where
  "except_ValueError called out =
     (case called of
        Inr v \<Rightarrow> Inr out
      | Inl (ValueError e) \<Rightarrow> Inr (out @ [''This didn't work!'' @ '' '' @ e])
      | Inl other \<Rightarrow> Inl other)"

definition resolution_cell ::
  "(real option \<Rightarrow> bool \<Rightarrow> py_error + 'i) \<Rightarrow> string list \<Rightarrow> py_error + string list" where
  "resolution_cell library_get_template out =
     except_ValueError (library_get_template (Some 20) False) out"

text \<open>
  Modelled from the spec: \<open>get_template\<close> is a method of the siibra library, which is
  not among the sources (only the notebooks calling it are). The spec: template
  retrieval is "parameterized by target space and optional resolution, with a refusal
  policy when a requested resolution exceeds a feasibility threshold unless explicitly
  overridden", and the library raises "a value error when a requested template resolution
  is infeasible". What exceeding the threshold means for a resolution, the text of the
  error and the image delivered are parameters. Without a requested resolution the
  library chooses a feasible one.
\<close>

definition get_template ::
  "('res \<Rightarrow> bool) \<Rightarrow> ('res \<Rightarrow> string) \<Rightarrow> ('res option \<Rightarrow> 'i) \<Rightarrow>
     'res option \<Rightarrow> bool \<Rightarrow> py_error + 'i" where
  "get_template exceeds_threshold refusal deliver resolution force =
     (case resolution of
        None \<Rightarrow> Inr (deliver None)
      | Some r \<Rightarrow>
          if exceeds_threshold r \<and> \<not> force then Inl (ValueError (refusal r))
          else Inr (deliver (Some r)))"

section \<open>Probabilistic\_assignment.ipynb: \<open>assign_regions\<close>\<close>

text \<open>
  Modelled from the spec: \<open>atlas.assign_regions\<close> is a method of the siibra library,
  which is not among the sources. The spec: "Probabilistic coordinate-to-region assignment
  given a point and an uncertainty radius, returning a ranked list of (region,
  probability) pairs". The notebook passes a list of points and indexes the result by
  point (\<open>assignments[0]\<close>). How the library arrives at the pairs of a point is the
  parameter \<open>candidates\<close>; ranking puts the highest probability first.
\<close>

definition ranked :: "('r \<times> 'p::linorder) list \<Rightarrow> ('r \<times> 'p) list" where
  "ranked pairs = rev (sort_key snd pairs)"

definition assign_regions ::
  "('space \<Rightarrow> 'pt \<Rightarrow> 'rad \<Rightarrow> ('r \<times> 'p::linorder) list) \<Rightarrow>
     'space \<Rightarrow> 'pt list \<Rightarrow> 'rad \<Rightarrow> ('r \<times> 'p) list list" where
  "assign_regions candidates space xyz_list radius =
     map (\<lambda>xyz. ranked (candidates space xyz radius)) xyz_list"

section \<open>Walkthrough.ipynb: the environment cells\<close>

text \<open>
  \<^verbatim>\<open>
  import webbrowser
  from os import environ
  webbrowser.open('https://nexus-iam.humanbrainproject.org/v0/oauth2/authorize')
  token = input("Enter your token here: ")
  environ['HBP_AUTH_TOKEN'] = token
  \<close>
  and
  \<^verbatim>\<open>
  #!mkdir -p /tmp/siibracache
  #environ['SIIBRA_CACHEDIR'] = "/tmp/siibracache"
  \<close>
  The state of the process as far as the two cells touch it: the environment, the pages
  opened in the browser and the prompts shown. \<open>token\<close> is the string \<open>input\<close>
  returned, as the list of its code points: the values of the environment are Python
  strings, its names are the literals of the source.

  The item assignment of \<open>os.environ\<close> first encodes the value in the filesystem
  encoding (with the \<open>surrogateescape\<close> handler) and then hands it to \<open>putenv\<close>. A value
  with a character the encoding cannot encode raises \<open>UnicodeEncodeError\<close> (its
  \<open>start\<close> is the position of the first such character), an encodable value with
  the character NUL raises \<open>ValueError('embedded null byte')\<close>; in both cases nothing is
  stored. Which code points the encoding cannot encode is the parameter
  \<open>unencodable\<close>; for UTF-8 they are the surrogates outside \<open>U+DC80..U+DCFF\<close>.
  What the cell did before the exception stays done.
  Both lines of the second cell are comments: it does nothing.
\<close>

type_synonym py_str = "nat list"


record process =
  environ :: "string \<rightharpoonup> py_str"
  opened :: "string list"
  prompts :: "string list"




definition cachedir_cell :: "process \<Rightarrow> process" where
  "cachedir_cell s = s"



section \<open>Walkthrough.ipynb: the connectivity matrix cell\<close>

text \<open>
  \<^verbatim>\<open>
  features = atlas.get_features(siibra.modalities.ConnectivityMatrix)[:4]
  from textwrap import wrap
  titleformat = lambda text : "\n".join(wrap(text.replace('_',' '),20))
  f,axs = plt.subplots(1,len(features))
  for i,feature in enumerate(features):
      axs[i].imshow(feature.matrix,cmap=plt.cm.viridis)
      axs[i].set_title(titleformat(feature.src_name),size=8)
  f.show()
  \<close>
  \<open>textwrap.wrap\<close> of the standard library is the parameter \<open>wrap\<close>.
\<close>

definition titleformat :: "(string \<Rightarrow> nat \<Rightarrow> string list) \<Rightarrow> string \<Rightarrow> string" where
  "titleformat wrap text =
     str_join [CHR 0x0A] (wrap (str_replace (CHR ''_'') (CHR '' '') text) 20)"

text \<open>A feature as the cell reads it: its matrix and the name of its dataset.\<close>

record 'm feature =
  matrix :: 'm
  src_name :: string

text \<open>
  What \<open>plt.subplots\<close> returns beside the figure: one Axes object, or an array of Axes
  objects. Axes are numbered by their column. Subscripting a single Axes object is a
  \<open>TypeError\<close>, subscripting an array beyond its length an \<open>IndexError\<close>.
\<close>

datatype axs = Axes nat | AxesArray "nat list"

definition subscript :: "axs \<Rightarrow> nat \<Rightarrow> py_error + nat" where
  "subscript a i =
     (case a of
        Axes n \<Rightarrow> Inl TypeError
      | AxesArray ns \<Rightarrow> if i < length ns then Inr (ns ! i) else Inl IndexError)"

text \<open>
  \<open>plt.subplots(1, ncols)\<close> of matplotlib, with its default \<open>squeeze=True\<close>: zero
  columns are refused with a \<open>ValueError\<close> (the text is the one of current versions),
  one column gives the Axes object itself, more columns give the array of the \<open>ncols\<close>
  Axes objects.
\<close>

definition plt_subplots :: "nat \<Rightarrow> py_error + axs" where
  "plt_subplots ncols =
     (if ncols = 0 then Inl (ValueError ''Number of columns must be a positive integer, not 0'')
      else if ncols = 1 then Inr (Axes 0)
      else Inr (AxesArray [0..<ncols]))"

text \<open>The calls the cell makes on the Axes objects and on the figure (\<open>f.show()\<close>),
  without their constant keyword arguments, and the statement of the cell at which an
  exception was raised.\<close>

datatype 'm draw = Imshow nat 'm | SetTitle nat string | Show

datatype stmt = AtSubplots | AtAxesIndexing nat

fun plot_matrices ::
  "(string \<Rightarrow> nat \<Rightarrow> string list) \<Rightarrow> axs \<Rightarrow> (nat \<times> 'm feature) list \<Rightarrow> 'm draw list \<Rightarrow>
     (stmt \<times> py_error) + 'm draw list" where
  "plot_matrices wrap a [] drawn = Inr drawn"
| "plot_matrices wrap a ((i, feature) # rest) drawn =
     (case subscript a i of
        Inl e \<Rightarrow> Inl (AtAxesIndexing i, e)
      | Inr ax \<Rightarrow>
          (case subscript a i of
             Inl e \<Rightarrow> Inl (AtAxesIndexing i, e)
           | Inr ax' \<Rightarrow>
               plot_matrices wrap a rest
                 (drawn @ [Imshow ax (matrix feature),
                          SetTitle ax' (titleformat wrap (src_name feature))])))"

text \<open>The cell, given what \<open>get_features\<close> returned; \<open>subplots\<close> is the plotting
  toolkit's function, called with the number of columns.\<close>

definition matrix_cell ::
  "(nat \<Rightarrow> py_error + axs) \<Rightarrow> (string \<Rightarrow> nat \<Rightarrow> string list) \<Rightarrow> 'm feature list \<Rightarrow>
     (stmt \<times> py_error) + 'm draw list" where
  "matrix_cell subplots wrap returned =
     (let features = take 4 returned
      in case subplots (length features) of
           Inl e \<Rightarrow> Inl (AtSubplots, e)
         | Inr a \<Rightarrow>
             (case plot_matrices wrap a (enumerate_list features) [] of
                Inl e \<Rightarrow> Inl e
              | Inr drawn \<Rightarrow> Inr (drawn @ [Show])))"

definition fails_at_axes_indexing :: "(stmt \<times> py_error) + 'a \<Rightarrow> bool" where
  "fails_at_axes_indexing res =
     (case res of Inl (AtAxesIndexing i, e) \<Rightarrow> True | Inl (AtSubplots, e) \<Rightarrow> False | Inr v \<Rightarrow> False)"

text \<open>\<open>textwrap.wrap(text, 20)\<close> on a text that is not empty, has at most 20 characters,
  no tab or newline and no blank at its end: the text itself, as one line. It stands for
  \<open>wrap\<close> in the examples, whose dataset names are such texts.\<close>

definition wrap_short :: "string \<Rightarrow> nat \<Rightarrow> string list" where
  "wrap_short text width = [text]"

section \<open>The calls of the notebooks, in the order of execution\<close>

text \<open>
  The cells of a notebook run from top to bottom, and a cell is a sequence of statements.
  Each notebook is the list of its call sites in the order in which they are first
  reached; a call site inside a loop stands once. A call site has the line of the notebook file it is on, the
  step it belongs to, who carries it out, its text, and the lines of the call sites it
  depends on: for a data fetch the selections in effect that it reads, for a plotting
  call the fetches whose result it displays. A statement stands under its outermost
  call; a library call or a call of a notebook function in an argument has an entry of
  its own, before the call it is an argument of (\<open>region.get_regional_map\<close>,
  \<open>layers.as_image\<close>, \<open>titleformat\<close>).

  The steps: the import of the library (\<open>import siibra\<close>), the configuration of the
  logging level (\<open>siibra.logger.setLevel\<close>), a selection (the choice of the atlas,
  \<open>select_parcellation\<close>, \<open>select_region\<close>, \<open>clear_selection\<close>), a data fetch (a
  library call that returns data), a plotting call (a call of the plotting toolkits, of
  a notebook function that wraps one, or of a feature's own \<open>plot\<close>), and anything else
  (other imports, local assignments, definitions, \<open>print\<close>, the formatting of a
  title).

  A call is carried out by the library (a function of \<open>siibra\<close> or a method or attribute
  of an object it returned: the atlas, a map, a region, a feature), by a plotting
  toolkit (\<open>nilearn\<close>, \<open>matplotlib\<close>), by a function defined in the notebook
  (\<open>plot_roi\<close>, \<open>plot_connectivity_profiles\<close>, \<open>titleformat\<close>), or by Python itself
  (statements, built-in functions and the standard library).
\<close>

datatype owner = Library | Toolkit | Notebook | Python

datatype step = ImportLibrary | SetLevel | Select | Fetch | Plot | Local

datatype call =
  Call (line: nat) (step: step) (owner: owner) (what: string) (needs: "nat list")

definition bigbrain :: "call list" where
  "bigbrain =
    [Call 22 ImportLibrary Python ''import siibra'' [],
     Call 23 Local Python ''from nilearn import plotting,image'' [],
     Call 24 SetLevel Library ''siibra.logger.setLevel'' [],
     Call 25 Local Python ''print(siibra.__version__)'' [],
     Call 43 Fetch Library ''template = siibra.spaces.BIG_BRAIN.get_template()'' [],
     Call 60 Fetch Library ''siibra.spaces.BIG_BRAIN.get_template(resolution=20.)'' [],
     Call 62 Local Python ''print'' [],
     Call 80 Select Library ''atlas = siibra.atlases.MULTILEVEL_HUMAN_ATLAS'' [],
     Call 81 Select Library ''atlas.select_parcellation'' [],
     Call 82 Fetch Library ''layers = atlas.get_map'' [81],
     Call 92 Local Python ''plot_roi = lambda'' [],
     Call 105 Fetch Library ''layers.as_image()'' [],
     Call 105 Plot Notebook ''plot_roi(layers.as_image(), ...)'' [105, 82, 43],
     Call 123 Select Library ''atlas.select_region'' [],
     Call 124 Fetch Library ''layermask = atlas.build_mask'' [81, 123],
     Call 125 Plot Notebook ''plot_roi(layermask, ...)'' [124, 43],
     Call 141 Select Library ''atlas.select_parcellation'' [],
     Call 142 Select Library ''atlas.select_region'' [],
     Call 143 Fetch Library ''regionmask = atlas.build_mask'' [141, 142],
     Call 144 Plot Notebook ''plot_roi(regionmask, ...)'' [143, 43]]"

definition probabilistic_assignment :: "call list" where
  "probabilistic_assignment =
    [Call 11 ImportLibrary Python ''import siibra'' [],
     Call 12 SetLevel Library ''siibra.logger.setLevel'' [],
     Call 30 Local Python ''xyz_mni = ...'' [],
     Call 36 Local Python ''radius_mm = 5'' [],
     Call 52 Select Library ''atlas = siibra.atlases.MULTILEVEL_HUMAN_ATLAS'' [],
     Call 53 Select Library ''atlas.select_parcellation'' [],
     Call 55 Fetch Library ''assignments = atlas.assign_regions'' [53],
     Call 72 Local Python ''from nilearn import plotting'' [],
     Call 75 Fetch Library ''region.get_regional_map'' [],
     Call 74 Plot Toolkit ''plotting.plot_stat_map'' [75, 55],
     Call 96 Local Python ''closest_region,_ = assignments[0][0]'' [],
     Call 97 Select Library ''atlas.select_region'' [],
     Call 98 Fetch Library ''profiles = atlas.get_features'' [53, 97],
     Call 117 SetLevel Library ''siibra.logger.setLevel'' [],
     Call 118 Fetch Library ''decoded_profiles = [p.decode(atlas.selected_parcellation) ...]'' [53],
     Call 120 SetLevel Library ''siibra.logger.setLevel'' [],
     Call 121 Local Python ''p = decoded_profiles[0]'' [],
     Call 122 Local Python ''target_regions = ...'' [],
     Call 139 Local Python ''import matplotlib.pyplot as plt'' [],
     Call 144 Local Python ''def plot_connectivity_profiles'' [],
     Call 171 Plot Notebook ''fig = plot_connectivity_profiles(decoded_profiles,target_regions)'' [118],
     Call 172 Plot Toolkit ''fig.legend([p.src_name for p in profiles], ...)'' [98],
     Call 175 Plot Toolkit ''fig.gca().set_title'' [118],
     Call 176 Plot Toolkit ''plt.show()'' [118]]"

definition walkthrough :: "call list" where
  "walkthrough =
    [Call 13 Local Python ''from nilearn import plotting,image'' [],
     Call 14 Local Python ''import numpy as np'' [],
     Call 15 Local Python ''import matplotlib.pyplot as plt'' [],
     Call 49 Local Python ''import webbrowser'' [],
     Call 50 Local Python ''from os import environ'' [],
     Call 51 Local Python ''webbrowser.open'' [],
     Call 52 Local Python ''token = input'' [],
     Call 53 Local Python ''environ['HBP_AUTH_TOKEN'] = token'' [],
     Call 86 ImportLibrary Python ''import siibra'' [],
     Call 87 SetLevel Library ''siibra.logger.setLevel'' [],
     Call 89 Select Library ''atlas = siibra.atlases.MULTILEVEL_HUMAN_ATLAS'' [],
     Call 90 Select Library ''atlas.select_parcellation'' [],
     Call 113 Select Library ''atlas.select_parcellation'' [],
     Call 114 Fetch Library ''icbm_mri = atlas.get_template'' [89],
     Call 115 Fetch Library ''icbm_map = atlas.get_map'' [113],
     Call 117 Plot Toolkit ''plotting.plot_stat_map(m)'' [115],
     Call 120 Fetch Library ''bigbrain_template = atlas.get_template'' [89],
     Call 121 Fetch Library ''bigbrain_map = atlas.get_map'' [113],
     Call 123 Plot Toolkit ''plotting.plot_stat_map(m,bg_img=bigbrain_template)'' [121, 120],
     Call 126 Select Library ''atlas.select_parcellation'' [],
     Call 127 Fetch Library ''dk_map = atlas.get_map'' [126],
     Call 129 Plot Toolkit ''plotting.plot_stat_map(m,cmap=plt.cm.tab10)'' [127],
     Call 147 Select Library ''atlas.select_parcellation'' [],
     Call 148 Select Library ''atlas.select_region'' [],
     Call 164 Select Library ''atlas.select_region'' [],
     Call 180 Select Library ''atlas.select_region'' [],
     Call 196 Fetch Library ''matches = atlas.find_regions'' [89],
     Call 198 Local Python ''print'' [],
     Call 214 Select Library ''atlas.select_region'' [],
     Call 230 Select Library ''atlas.select_region'' [],
     Call 231 Fetch Library ''pmap = atlas.selected_region.get_regional_map'' [230],
     Call 232 Plot Toolkit ''plotting.plot_stat_map(pmap)'' [231],
     Call 248 Fetch Library ''props = atlas.selected_region.spatialprops'' [230],
     Call 249 Local Python ''print(props)'' [],
     Call 282 Select Library ''atlas.clear_selection'' [],
     Call 283 Fetch Library ''features = atlas.get_features'' [147, 282],
     Call 285 Local Python ''print'' [],
     Call 286 Local Python ''print'' [],
     Call 302 Select Library ''atlas.select_region'' [],
     Call 303 Fetch Library ''features = atlas.get_features'' [147, 302],
     Call 306 Plot Library ''fig = r.plot(r.region)'' [303],
     Call 328 Select Library ''atlas.select_region'' [],
     Call 329 Fetch Library ''features = atlas.get_features'' [147, 328],
     Call 332 Local Python ''print(features[0])'' [],
     Call 335 Local Python ''all_coords = ...'' [],
     Call 336 Fetch Library ''mask = atlas.build_mask'' [147, 328],
     Call 337 Plot Toolkit ''display = plotting.plot_roi(mask)'' [336],
     Call 338 Plot Toolkit ''display.add_markers(all_coords, ...)'' [329],
     Call 362 Fetch Library ''features = atlas.get_features(...)[:4]'' [147],
     Call 365 Local Python ''from textwrap import wrap'' [],
     Call 366 Local Python ''titleformat = lambda'' [],
     Call 369 Plot Toolkit ''f,axs = plt.subplots(1,len(features))'' [362],
     Call 371 Plot Toolkit ''axs[i].imshow(feature.matrix, ...)'' [362],
     Call 372 Local Notebook ''titleformat(feature.src_name)'' [],
     Call 372 Plot Toolkit ''axs[i].set_title(titleformat(feature.src_name), ...)'' [362],
     Call 373 Plot Toolkit ''f.show()'' [362]]"

text \<open>Import and logging configuration stand before every selection: after the first
  selection no call is an import of the library or a configuration of the logging
  level.\<close>

definition is_config :: "call \<Rightarrow> bool" where
  "is_config c = (step c = ImportLibrary \<or> step c = SetLevel)"

definition is_select :: "call \<Rightarrow> bool" where
  "is_select c = (step c = Select)"

definition config_before_selection :: "call list \<Rightarrow> bool" where
  "config_before_selection nb =
     list_all (\<lambda>c. \<not> is_config c) (dropWhile (\<lambda>c. \<not> is_select c) nb)"

text \<open>The library is imported and the logging level configured before the first
  selection, fetch or plotting call.\<close>

definition uses_library :: "call \<Rightarrow> bool" where
  "uses_library c = (step c = Select \<or> step c = Fetch \<or> step c = Plot)"

definition starts_with_config :: "call list \<Rightarrow> bool" where
  "starts_with_config nb =
     (let before = takeWhile (\<lambda>c. \<not> uses_library c) nb
      in list_ex (\<lambda>c. step c = ImportLibrary) before \<and>
         list_ex (\<lambda>c. step c = SetLevel) before)"

text \<open>A call of step \<open>s\<close> on line \<open>n\<close> is among the calls already made.\<close>

definition made :: "call list \<Rightarrow> step \<Rightarrow> nat \<Rightarrow> bool" where
  "made seen s n = list_ex (\<lambda>c. line c = n \<and> step c = s) seen"

text \<open>Every selection a fetch depends on has been made before the fetch.\<close>

fun selections_before_fetches :: "call list \<Rightarrow> call list \<Rightarrow> bool" where
  "selections_before_fetches seen [] = True"
| "selections_before_fetches seen (c # cs) =
     ((if step c = Fetch then list_all (made seen Select) (needs c) else True) \<and>
      selections_before_fetches (seen @ [c]) cs)"

text \<open>Every plotting call displays the result of at least one fetch, and every fetch
  whose result it displays has been made before it.\<close>

fun fetches_before_plots :: "call list \<Rightarrow> call list \<Rightarrow> bool" where
  "fetches_before_plots seen [] = True"
| "fetches_before_plots seen (c # cs) =
     ((if step c = Plot then needs c \<noteq> [] \<and> list_all (made seen Fetch) (needs c) else True) \<and>
      fetches_before_plots (seen @ [c]) cs)"

text \<open>Every selection and every data fetch is carried out by the library.\<close>

definition delegated :: "call list \<Rightarrow> bool" where
  "delegated nb =
     list_all (\<lambda>c. if step c = Select \<or> step c = Fetch then owner c = Library else True) nb"

text \<open>The call sites of the functions defined in the notebook, with their steps, and the
  lines of the call sites whose text mentions a word.\<close>

definition notebook_function_calls :: "call list \<Rightarrow> (nat \<times> step) list" where
  "notebook_function_calls nb = map (\<lambda>c. (line c, step c)) (filter (\<lambda>c. owner c = Notebook) nb)"

definition mentions :: "string \<Rightarrow> call list \<Rightarrow> nat list" where
  "mentions word nb = map line (filter (\<lambda>c. str_contains word (what c)) nb)"

section \<open>Lemmas on \<open>plot_connectivity_profiles\<close>\<close>

lemma foldl_setitem_lookup:
  "foldl (\<lambda>d (prob, region). dict_setitem d region prob) m p r =
     (case filter (\<lambda>(s, r'). r' = r) p of
        [] \<Rightarrow> m r
      | e # es \<Rightarrow> Some (fst (last (e # es))))"
proof (induction p arbitrary: m)
  case Nil
  show ?case by simp
next
  case (Cons a p)
  obtain s r' where a: "a = (s, r')" by (cases a)
  have step: "foldl (\<lambda>d (prob, region). dict_setitem d region prob) m (a # p) r =
      foldl (\<lambda>d (prob, region). dict_setitem d region prob) (dict_setitem m r' s) p r"
    by (simp add: a)
  show ?case
    unfolding step Cons.IH
    by (simp add: a dict_setitem_def split: list.split)
qed

lemma probs_lookup:
  "probs p r =
     (case filter (\<lambda>(s, r'). r' = r) p of [] \<Rightarrow> None | e # es \<Rightarrow> Some (fst (last (e # es))))"
  by (simp add: probs_def foldl_setitem_lookup)

lemma item_or_zero:
  "(if dict_contains (probs p) r then dict_getitem (probs p) r else Inr 0) =
     Inr (last_strength p r)"
  by (simp add: dict_contains_def dict_getitem_def last_strength_def probs_lookup
      split: list.split)

lemma y_values_total: "y_values (probs p) rs = Inr (map (last_strength p) rs)"
  by (induction rs) (simp_all add: item_or_zero)

lemma plot_profiles_lines:
  "plot_profiles ax1 ps ts =
     Inr (ax1\<lparr>lines := lines ax1 @ map (\<lambda>p. (xticks ax1, map (last_strength p) ts)) ps\<rparr>)"
  by (induction ps arbitrary: ax1) (simp_all add: y_values_total)

lemma last_strength_absent: "r \<notin> snd ` set p \<Longrightarrow> last_strength p r = 0"
proof -
  assume "r \<notin> snd ` set p"
  then have "filter (\<lambda>(s, r'). r' = r) p = []"
    by (force simp: filter_empty_conv)
  then show ?thesis by (simp add: last_strength_def)
qed

lemma last_strength_last:
  assumes "r \<notin> snd ` set p2"
  shows "last_strength (p1 @ (s, r) # p2) r = s"
proof -
  let ?P = "\<lambda>(s, r'). r' = r"
  from assms have "filter ?P p2 = []"
    by (force simp: filter_empty_conv)
  then have f: "filter ?P (p1 @ (s, r) # p2) = filter ?P p1 @ [(s, r)]"
    by simp
  obtain e es where c: "filter ?P p1 @ [(s, r)] = e # es"
    by (cases "filter ?P p1 @ [(s, r)]") auto
  then have "last (e # es) = (s, r)"
    by (metis last_snoc)
  then show ?thesis
    unfolding last_strength_def f c by simp
qed


lemma last_strength_cases: "last_strength p r = 0 \<or> last_strength p r \<in> fst ` set p"
proof (cases "filter (\<lambda>(s, r'). r' = r) p")
  case Nil
  then show ?thesis by (simp add: last_strength_def)
next
  case (Cons e es)
  have "last (e # es) \<in> set (e # es)"
    by (rule last_in_set) simp
  then have "last (e # es) \<in> set p"
    unfolding Cons [symmetric] by simp
  then have "fst (last (e # es)) \<in> fst ` set p"
    by (rule imageI)
  then show ?thesis
    unfolding last_strength_def Cons by simp
qed

lemma plotted_values_eq:
  "plotted_values (plot_connectivity_profiles name profiles target_regions) =
     concat (map (\<lambda>p. map (last_strength p) target_regions) profiles)"
  by (simp add: plotted_values_def plot_connectivity_profiles_def plot_profiles_lines Let_def
      comp_def)

lemma plotted_values_subset:
  "set (plotted_values (plot_connectivity_profiles name profiles target_regions)) \<subseteq>
     insert 0 (set (returned_strengths profiles))"
proof
  fix v
  assume "v \<in> set (plotted_values (plot_connectivity_profiles name profiles target_regions))"
  then obtain p r where p: "p \<in> set profiles" and v: "v = last_strength p r"
    unfolding plotted_values_eq by auto
  from last_strength_cases [of p r] show "v \<in> insert 0 (set (returned_strengths profiles))"
  proof
    assume "last_strength p r = 0"
    then show ?thesis by (simp add: v)
  next
    assume "last_strength p r \<in> fst ` set p"
    with p have "v \<in> set (returned_strengths profiles)"
      unfolding returned_strengths_def v by auto
    then show ?thesis by simp
  qed
qed

section \<open>Lemmas on the strings of \<open>titleformat\<close>\<close>

lemma str_replace_length: "length (str_replace old new text) = length text"
  by (simp add: str_replace_def)

lemma str_replace_absent: "old \<noteq> new \<Longrightarrow> old \<notin> set (str_replace old new text)"
  by (auto simp: str_replace_def)

lemma str_replace_nth:
  "i < length text \<Longrightarrow>
   str_replace old new text ! i = (if text ! i = old then new else text ! i)"
  by (simp add: str_replace_def)

section \<open>Lemmas on the connectivity matrix cell\<close>

lemma subscript_array: "i < n \<Longrightarrow> subscript (AxesArray [0..<n]) i = Inr i"
  by (simp add: subscript_def)

lemma plot_matrices_array:
  "list_all (\<lambda>(i, f). i < n) ifs \<Longrightarrow>
   plot_matrices wrap (AxesArray [0..<n]) ifs drawn =
     Inr (drawn @ concat (map (\<lambda>(i, f). [Imshow i (matrix f),
                                         SetTitle i (titleformat wrap (src_name f))]) ifs))"
proof (induction ifs arbitrary: drawn)
  case Nil
  show ?case by simp
next
  case (Cons a ifs)
  obtain i f where a: "a = (i, f)" by (cases a)
  from Cons.prems have i: "i < n" and rest: "list_all (\<lambda>(i, f). i < n) ifs"
    by (simp_all add: a)
  show ?case
    by (simp add: a subscript_array [OF i] Cons.IH [OF rest])
qed

lemma enumerate_list_bound: "list_all (\<lambda>(i, f). i < length xs) (enumerate_list xs)"
  by (auto simp: enumerate_list_def list_all_iff dest: set_zip_leftD)

lemma enumerate_list_Nil: "enumerate_list [] = []"
  by (simp add: enumerate_list_def)

lemma enumerate_list_single: "enumerate_list [x] = [(0, x)]"
  by (simp add: enumerate_list_def)

lemma empty_never_indexes:
  "\<not> fails_at_axes_indexing (matrix_cell subplots wrap [])"
  by (simp add: matrix_cell_def fails_at_axes_indexing_def enumerate_list_Nil split: sum.split)

section \<open>Lemmas on the environment cells\<close>



section \<open>Lemmas on ranking\<close>

lemma ranked_descending:
  "sorted_wrt (\<lambda>a b. b \<le> a) (map snd (ranked (pairs :: ('r \<times> 'p::linorder) list)))"
proof -
  have "sorted (map snd (sort_key snd pairs))"
    by (rule sorted_sort_key)
  then have "sorted_wrt (\<lambda>a b. b \<le> a) (rev (map snd (sort_key snd pairs)))"
    by (simp add: sorted_wrt_rev)
  then show ?thesis
    by (simp add: ranked_def rev_map)
qed

lemma ranked_set: "set (ranked pairs) = set pairs"
  by (simp add: ranked_def)

lemma descending_hd:
  "sorted_wrt (\<lambda>a b. b \<le> a) xs \<Longrightarrow> x \<in> set xs \<Longrightarrow> (x::'p::linorder) \<le> hd xs"
  by (cases xs) auto

section \<open>Lemmas on the order of the calls\<close>

lemma bigbrain_order:
  "starts_with_config bigbrain" "config_before_selection bigbrain"
  "selections_before_fetches [] bigbrain" "fetches_before_plots [] bigbrain"
  by (simp_all add: bigbrain_def starts_with_config_def config_before_selection_def
      is_config_def is_select_def uses_library_def made_def)

lemma probabilistic_assignment_order:
  "starts_with_config probabilistic_assignment"
  "selections_before_fetches [] probabilistic_assignment"
  "fetches_before_plots [] probabilistic_assignment"
  by (simp_all add: probabilistic_assignment_def starts_with_config_def
      is_config_def is_select_def uses_library_def made_def)

lemma walkthrough_order:
  "starts_with_config walkthrough" "config_before_selection walkthrough"
  "selections_before_fetches [] walkthrough" "fetches_before_plots [] walkthrough"
  by (simp_all add: walkthrough_def starts_with_config_def config_before_selection_def
      is_config_def is_select_def uses_library_def made_def)

section \<open>Lemmas on who carries out the calls\<close>


lemma mentions_cache:
  "mentions ''cache'' walkthrough = []"
  "mentions ''cache'' bigbrain = []"
  "mentions ''cache'' probabilistic_assignment = []"
  by (simp_all add: mentions_def walkthrough_def bigbrain_def probabilistic_assignment_def)

lemma notebooks_delegated:
  "delegated bigbrain" "delegated probabilistic_assignment" "delegated walkthrough"
  by (simp_all add: delegated_def walkthrough_def bigbrain_def probabilistic_assignment_def)

lemma notebook_function_call_sites:
  "notebook_function_calls bigbrain = [(105, Plot), (125, Plot), (144, Plot)]"
  "notebook_function_calls probabilistic_assignment = [(171, Plot)]"
  "notebook_function_calls walkthrough = [(372, Local)]"
  by (simp_all add: notebook_function_calls_def walkthrough_def bigbrain_def
      probabilistic_assignment_def)

section \<open>The refusal of an infeasible resolution\<close>

text \<open>
  C1. Whenever the requested resolution exceeds the feasibility threshold and the
  override flag is not set, \<open>get_template\<close> raises a \<open>ValueError\<close>; the \<open>try\<close>
  statement of the notebook catches it, prints it after "This didn't work!" and goes on
  (the cell of the notebook requests the resolution 20); the same request with
  \<open>force=True\<close> delivers the template.
\<close>

theorem get_template_refusal:
  assumes "exceeds_threshold r"
  shows "get_template exceeds_threshold refusal deliver (Some r) False =
           Inl (ValueError (refusal r)) \<and>
         except_ValueError (get_template exceeds_threshold refusal deliver (Some r) False) out =
           Inr (out @ [''This didn't work! '' @ refusal r]) \<and>
         (r = 20 \<longrightarrow>
            resolution_cell (get_template exceeds_threshold refusal deliver) out =
              Inr (out @ [''This didn't work! '' @ refusal 20])) \<and>
         get_template exceeds_threshold refusal deliver (Some r) True = Inr (deliver (Some r))"
  using assms by (auto simp: get_template_def except_ValueError_def resolution_cell_def)

theorem get_template_refusal_witness:
  "(20::real) < 100 \<and>
   get_template (\<lambda>r::real. r < 100) (\<lambda>r. ''too large'') (\<lambda>r. ''image'') (Some 20) False =
     Inl (ValueError ''too large'') \<and>
   resolution_cell (get_template (\<lambda>r::real. r < 100) (\<lambda>r. ''too large'') (\<lambda>r. ''image'')) [] =
     Inr [''This didn't work! too large''] \<and>
   get_template (\<lambda>r::real. r < 100) (\<lambda>r. ''too large'') (\<lambda>r. ''image'') (Some 20) True =
     Inr ''image''"
proof -
  have h: "(\<lambda>r::real. r < 100) 20"
    by simp
  from get_template_refusal
    [of "\<lambda>r::real. r < 100" 20 "\<lambda>r. ''too large''" "\<lambda>r. ''image''" "[]", OF h]
  show ?thesis by simp
qed

section \<open>The ranking of the assigned regions\<close>

text \<open>
  C2. For every list of points and every radius, \<open>assign_regions\<close> returns one result
  per point; the result of a point holds the (region, probability) pairs of that point,
  in descending order of probability, so that no pair of the result has a higher
  probability than its first pair.
\<close>

theorem assign_regions_ranked:
  "length (assign_regions candidates space xyz_list radius) = length xyz_list \<and>
   (\<forall>i<length xyz_list.
      set (assign_regions candidates space xyz_list radius ! i) =
        set (candidates space (xyz_list ! i) radius) \<and>
      sorted_wrt (\<lambda>a b. b \<le> a)
        (map snd (assign_regions candidates space xyz_list radius ! i)) \<and>
      (\<forall>(region, prob) \<in> set (assign_regions candidates space xyz_list radius ! i).
         prob \<le> snd (hd (assign_regions candidates space xyz_list radius ! i))))"
proof (intro conjI allI impI)
  show "length (assign_regions candidates space xyz_list radius) = length xyz_list"
    by (simp add: assign_regions_def)
next
  fix i
  assume i: "i < length xyz_list"
  let ?res = "assign_regions candidates space xyz_list radius ! i"
  from i have res: "?res = ranked (candidates space (xyz_list ! i) radius)"
    by (simp add: assign_regions_def)
  show "set ?res = set (candidates space (xyz_list ! i) radius)"
    by (simp add: res ranked_set)
  show d: "sorted_wrt (\<lambda>a b. b \<le> a) (map snd ?res)"
    unfolding res by (rule ranked_descending)
  show "\<forall>(region, prob) \<in> set ?res. prob \<le> snd (hd ?res)"
  proof (clarify)
    fix region prob
    assume m: "(region, prob) \<in> set ?res"
    then have "prob \<in> set (map snd ?res)"
      by force
    with d have "prob \<le> hd (map snd ?res)"
      by (rule descending_hd)
    moreover from m have "?res \<noteq> []"
      by auto
    ultimately show "prob \<le> snd (hd ?res)"
      by (simp add: hd_map)
  qed
qed

theorem assign_regions_ranked_witness:
  "(0::nat) < length [1::nat, 2] \<and>
   assign_regions (\<lambda>space xyz radius. [(''a'', xyz + radius), (''b'', 3 * xyz), (''c'', 0::nat)])
       ''mni'' [1::nat, 2] (1::nat) =
     [[(''b'', 3), (''a'', 2), (''c'', 0)], [(''b'', 6), (''a'', 3), (''c'', 0)]]"
  using assign_regions_ranked
    [of "\<lambda>space xyz radius. [(''a'', xyz + radius), (''b'', 3 * xyz), (''c'', 0::nat)]"
        "''mni''" "[1::nat, 2]" "1::nat"]
  by (simp add: assign_regions_def ranked_def)

section \<open>What the functions of the notebooks hand to the plotting toolkit\<close>

text \<open>
  If the functions defined in the notebooks only forwarded values returned by the
  library, every number plotted by \<open>plot_connectivity_profiles\<close> would be a strength of
  one of the profiles, and the title set for a matrix would be the name of its dataset.
  Neither holds: for a target region that a profile lacks the function plots 0, and
  \<open>titleformat\<close> rewrites the name.
\<close>

theorem forwarding_counterexample:
  "\<not> set (plotted_values (plot_connectivity_profiles id [[(5::int, ''V1'')]] [''V2'']))
       \<subseteq> set (returned_strengths [[(5::int, ''V1'')]]) \<and>
   titleformat wrap_short ''a_b'' \<noteq> ''a_b''"
  by (simp add: plotted_values_eq returned_strengths_def last_strength_def titleformat_def
      wrap_short_def str_replace_def)

text \<open>
  C4, as amended. The operations are delegated to the library: in every notebook each
  selection and each data fetch (template resolution, region search, coordinate
  assignment, feature retrieval) is carried out by the library; the functions defined
  in the notebooks are called for plotting and for the formatting of a title only; no
  call of a notebook concerns the cache, and the cell of the cache directory does
  nothing. Of the functions defined in the notebooks, \<open>plot_roi\<close> forwards the image,
  the template and the title unchanged. \<open>plot_connectivity_profiles\<close> labels the ticks
  with the names of the target regions and plots, for every profile, one value per
  target region: the strength of the region in the profile, or 0; so every plotted
  number is a strength returned by the library or 0. \<open>titleformat\<close> hands to \<open>wrap\<close>
  the text in which every underscore is replaced by a blank and nothing else is
  changed, with the width 20, and joins the lines by newlines.
\<close>

theorem notebook_functions_pass_on:
  "delegated bigbrain \<and> delegated probabilistic_assignment \<and> delegated walkthrough \<and>
   notebook_function_calls bigbrain = [(105, Plot), (125, Plot), (144, Plot)] \<and>
   notebook_function_calls probabilistic_assignment = [(171, Plot)] \<and>
   notebook_function_calls walkthrough = [(372, Local)] \<and>
   mentions ''cache'' bigbrain = [] \<and>
   mentions ''cache'' probabilistic_assignment = [] \<and>
   mentions ''cache'' walkthrough = [] \<and>
   cachedir_cell s = s \<and>
   img (plot_roi template roi text) = roi \<and>
   bg_img (plot_roi template roi text) = template \<and>
   title (plot_roi template roi text) = text \<and>
   (\<exists>fig. plot_connectivity_profiles name profiles target_regions = Inr fig \<and>
      xticklabels fig = map name target_regions \<and>
      map snd (lines fig) = map (\<lambda>p. map (last_strength p) target_regions) profiles) \<and>
   set (plotted_values (plot_connectivity_profiles name profiles target_regions)) \<subseteq>
     insert 0 (set (returned_strengths profiles)) \<and>
   (\<exists>spaced. titleformat wrap text = str_join [CHR 0x0A] (wrap spaced 20) \<and>
      length spaced = length text \<and>
      CHR ''_'' \<notin> set spaced \<and>
      (\<forall>i<length text. spaced ! i = (if text ! i = CHR ''_'' then CHR '' '' else text ! i)))"
proof -
  have r1: "img (plot_roi template roi text) = roi"
    and r2: "bg_img (plot_roi template roi text) = template"
    and r3: "title (plot_roi template roi text) = text"
    by (simp_all add: plot_roi_def)
  have fig: "\<exists>fig. plot_connectivity_profiles name profiles target_regions = Inr fig \<and>
      xticklabels fig = map name target_regions \<and>
      map snd (lines fig) = map (\<lambda>p. map (last_strength p) target_regions) profiles"
    by (simp add: plot_connectivity_profiles_def plot_profiles_lines Let_def comp_def)
  let ?spaced = "str_replace (CHR ''_'') (CHR '' '') text"
  have "titleformat wrap text = str_join [CHR 0x0A] (wrap ?spaced 20)"
    by (simp add: titleformat_def)
  moreover have "length ?spaced = length text"
    by (rule str_replace_length)
  moreover have "CHR ''_'' \<notin> set ?spaced"
    by (rule str_replace_absent) simp
  moreover have
    "\<forall>i<length text. ?spaced ! i = (if text ! i = CHR ''_'' then CHR '' '' else text ! i)"
    by (simp add: str_replace_nth)
  ultimately have tf: "\<exists>spaced. titleformat wrap text = str_join [CHR 0x0A] (wrap spaced 20) \<and>
      length spaced = length text \<and>
      CHR ''_'' \<notin> set spaced \<and>
      (\<forall>i<length text. spaced ! i = (if text ! i = CHR ''_'' then CHR '' '' else text ! i))"
    by (intro exI [of _ ?spaced] conjI)
  have cc: "cachedir_cell s = s"
    by (simp add: cachedir_cell_def)
  show ?thesis
    by (intro conjI notebooks_delegated notebook_function_call_sites mentions_cache cc
        r1 r2 r3 fig tf plotted_values_subset)
qed

theorem notebook_functions_pass_on_witness:
  "(1::nat) < length ''a_b'' \<and>
   titleformat wrap_short ''a_b'' = ''a b'' \<and>
   img (plot_roi ''template'' ''mask'' ''a_b'') = ''mask'' \<and>
   plot_connectivity_profiles id [[(5::int, ''V1'')]] [''V1'', ''V2''] =
     Inr \<lparr>xticks = [0, 1], xticklabels = [''V1'', ''V2''], lines = [([0, 1], [5, 0])],
          grid = True\<rparr>"
proof -
  have a: "(1::nat) < length ''a_b''"
    by simp
  have b: "titleformat wrap_short ''a_b'' = ''a b''"
    by (simp add: titleformat_def wrap_short_def str_replace_def)
  have "img (plot_roi ''template'' ''mask'' ''a_b'') = ''mask''"
    using notebook_functions_pass_on
      [of "\<lparr>environ = Map.empty, opened = [], prompts = []\<rparr>" "''template''" "''mask''"
          "''a_b''" id "[[(5::int, ''V1'')]]" "[''V1'', ''V2'']" wrap_short]
    by (elim conjE)
  moreover have "plot_connectivity_profiles id [[(5::int, ''V1'')]] [''V1'', ''V2''] =
     Inr \<lparr>xticks = [0, 1], xticklabels = [''V1'', ''V2''], lines = [([0, 1], [5, 0])],
          grid = True\<rparr>"
    by (simp add: plot_connectivity_profiles_def Let_def probs_def dict_setitem_def
        dict_contains_def dict_getitem_def upt_rec)
  ultimately show ?thesis
    using a b by (intro conjI)
qed

section \<open>The environment variables\<close>



section \<open>The order of the steps\<close>

text \<open>
  Read as a rule without exception, "import and logging configuration before any
  selection" fails in \<open>Probabilistic_assignment.ipynb\<close>: the logging level is set again
  on the lines 117 and 120, after the selections of the lines 52, 53 and 97.
\<close>

theorem config_after_selection_counterexample:
  "\<not> config_before_selection probabilistic_assignment"
  by (simp add: config_before_selection_def probabilistic_assignment_def is_config_def
      is_select_def)

text \<open>
  C6, as amended. In every notebook the library is imported and the logging level
  configured before the first selection, fetch or plotting call; in \<open>BigBrain.ipynb\<close>
  and \<open>Walkthrough.ipynb\<close> no later call configures the logging level. In every notebook
  every selection a fetch depends on is made before the fetch, and every plotting call
  comes after the fetches whose results it displays.
\<close>

theorem notebooks_in_order:
  "starts_with_config bigbrain \<and>
   starts_with_config probabilistic_assignment \<and>
   starts_with_config walkthrough \<and>
   config_before_selection bigbrain \<and>
   config_before_selection walkthrough \<and>
   selections_before_fetches [] bigbrain \<and>
   selections_before_fetches [] probabilistic_assignment \<and>
   selections_before_fetches [] walkthrough \<and>
   fetches_before_plots [] bigbrain \<and>
   fetches_before_plots [] probabilistic_assignment \<and>
   fetches_before_plots [] walkthrough"
  by (intro conjI bigbrain_order probabilistic_assignment_order walkthrough_order)

section \<open>The values plotted by \<open>plot_connectivity_profiles\<close>\<close>

text \<open>
  C9. \<open>plot_connectivity_profiles\<close> never raises. It plots one line per profile, over
  the ticks \<open>0, ..., N - 1\<close>, and the value of a line for a target region is the
  strength of the last pair of the profile with that region, 0 when the profile has no
  pair with that region.
\<close>

theorem plot_connectivity_profiles_strengths:
  "(\<exists>fig. plot_connectivity_profiles name profiles target_regions = Inr fig \<and>
      xticks fig = [0..<length target_regions] \<and>
      lines fig =
        map (\<lambda>p. ([0..<length target_regions], map (last_strength p) target_regions)) profiles) \<and>
   (\<forall>p r. r \<notin> snd ` set p \<longrightarrow> last_strength p r = (0::'s::zero)) \<and>
   (\<forall>p1 s r p2. r \<notin> snd ` set p2 \<longrightarrow> last_strength (p1 @ (s, r) # p2) r = (s::'s))"
proof -
  have "\<exists>fig. plot_connectivity_profiles name profiles target_regions = Inr fig \<and>
      xticks fig = [0..<length target_regions] \<and>
      lines fig =
        map (\<lambda>p. ([0..<length target_regions], map (last_strength p) target_regions)) profiles"
    by (simp add: plot_connectivity_profiles_def plot_profiles_lines Let_def)
  moreover have "\<forall>p r. r \<notin> snd ` set p \<longrightarrow> last_strength p r = (0::'s)"
    by (intro allI impI) (rule last_strength_absent)
  moreover have
    "\<forall>p1 s r p2. r \<notin> snd ` set p2 \<longrightarrow> last_strength (p1 @ (s, r) # p2) r = (s::'s)"
    by (intro allI impI) (rule last_strength_last)
  ultimately show ?thesis by (intro conjI)
qed

theorem plot_connectivity_profiles_strengths_witness:
  "plot_connectivity_profiles id [[(3::int, ''V1''), (7, ''V2''), (5, ''V1'')], [(2, ''V2'')]]
       [''V1'', ''V2'', ''V3''] =
     Inr \<lparr>xticks = [0, 1, 2], xticklabels = [''V1'', ''V2'', ''V3''],
          lines = [([0, 1, 2], [5, 7, 0]), ([0, 1, 2], [0, 2, 0])], grid = True\<rparr> \<and>
   ''V3'' \<notin> snd ` set [(3::int, ''V1''), (7, ''V2''), (5, ''V1'')] \<and>
   last_strength [(3::int, ''V1''), (7, ''V2''), (5, ''V1'')] ''V3'' = 0 \<and>
   last_strength ([(3::int, ''V1''), (7, ''V2'')] @ (5, ''V1'') # []) ''V1'' = 5"
  using plot_connectivity_profiles_strengths
    [of id "[[(3::int, ''V1''), (7, ''V2''), (5, ''V1'')], [(2, ''V2'')]]" "[''V1'', ''V2'', ''V3'']"]
  by (simp add: plot_connectivity_profiles_def probs_def dict_setitem_def dict_contains_def
      dict_getitem_def upt_rec Let_def last_strength_def)

section \<open>The axes of the connectivity matrix cell\<close>

text \<open>
  With no feature the loop of the cell has no round: \<open>axs[i]\<close> is never evaluated, and
  the cell cannot fail there. It fails in \<open>plt.subplots\<close>.
\<close>

theorem matrix_cell_empty_counterexample:
  "\<not> fails_at_axes_indexing (matrix_cell plt_subplots wrap_short ([] :: nat feature list))"
  by (simp add: matrix_cell_def fails_at_axes_indexing_def plt_subplots_def)

text \<open>
  C10, as amended. The cell plots the first four features at most. When \<open>get_features\<close>
  returns two features or more, \<open>plt.subplots\<close> gives an array with one Axes object per
  plotted feature, every \<open>axs[i]\<close> of the loop is in bounds, and the cell draws every
  plotted matrix and sets its title. With exactly one feature the cell fails at the
  axes indexing \<open>axs[0]\<close>, with a \<open>TypeError\<close>. With no feature the cell fails in
  \<open>plt.subplots\<close>, and whatever \<open>subplots\<close> does it never fails at the axes indexing.
\<close>

theorem matrix_cell_axes:
  "(2 \<le> length returned \<longrightarrow>
      plt_subplots (length (take 4 returned)) = Inr (AxesArray [0..<length (take 4 returned)]) \<and>
      list_all (\<lambda>(i, f). subscript (AxesArray [0..<length (take 4 returned)]) i = Inr i)
        (enumerate_list (take 4 returned)) \<and>
      matrix_cell plt_subplots wrap returned =
        Inr (concat (map (\<lambda>(i, f). [Imshow i (matrix f),
                                     SetTitle i (titleformat wrap (src_name f))])
                      (enumerate_list (take 4 returned))) @ [Show])) \<and>
   (length returned = 1 \<longrightarrow>
      matrix_cell plt_subplots wrap returned = Inl (AtAxesIndexing 0, TypeError)) \<and>
   (returned = [] \<longrightarrow>
      (\<exists>e. matrix_cell plt_subplots wrap returned = Inl (AtSubplots, e)) \<and>
      \<not> fails_at_axes_indexing (matrix_cell subplots wrap returned))"
proof (intro conjI impI)
  assume two: "2 \<le> length returned"
  let ?fs = "take 4 returned"
  from two have n: "2 \<le> length ?fs" by simp
  then have n0: "length ?fs \<noteq> 0" and n1: "length ?fs \<noteq> 1"
    by linarith+
  show sp: "plt_subplots (length ?fs) = Inr (AxesArray [0..<length ?fs])"
    unfolding plt_subplots_def using n0 n1 by (simp only: if_False)
  have b: "list_all (\<lambda>(i, f). i < length ?fs) (enumerate_list ?fs)"
    by (rule enumerate_list_bound)
  then show "list_all (\<lambda>(i, f). subscript (AxesArray [0..<length ?fs]) i = Inr i)
      (enumerate_list ?fs)"
    by (auto simp: list_all_iff subscript_array)
  show "matrix_cell plt_subplots wrap returned =
      Inr (concat (map (\<lambda>(i, f). [Imshow i (matrix f),
                                   SetTitle i (titleformat wrap (src_name f))])
                    (enumerate_list ?fs)) @ [Show])"
    by (simp only: matrix_cell_def Let_def sp sum.case plot_matrices_array [OF b] append_Nil)
next
  assume "length returned = 1"
  then obtain x where "returned = [x]"
    by (cases returned) auto
  then show "matrix_cell plt_subplots wrap returned = Inl (AtAxesIndexing 0, TypeError)"
    by (simp add: matrix_cell_def plt_subplots_def enumerate_list_single subscript_def)
next
  assume "returned = []"
  then show "\<exists>e. matrix_cell plt_subplots wrap returned = Inl (AtSubplots, e)"
    by (simp add: matrix_cell_def plt_subplots_def)
next
  assume "returned = []"
  then show "\<not> fails_at_axes_indexing (matrix_cell subplots wrap returned)"
    by (simp add: empty_never_indexes)
qed

theorem matrix_cell_axes_witness:
  "2 \<le> length [\<lparr>matrix = 1::nat, src_name = ''a_b''\<rparr>, \<lparr>matrix = 2, src_name = ''c''\<rparr>,
       \<lparr>matrix = 3, src_name = ''d''\<rparr>, \<lparr>matrix = 4, src_name = ''e''\<rparr>,
       \<lparr>matrix = 5, src_name = ''f''\<rparr>] \<and>
   matrix_cell plt_subplots wrap_short
      [\<lparr>matrix = 1::nat, src_name = ''a_b''\<rparr>, \<lparr>matrix = 2, src_name = ''c''\<rparr>,
       \<lparr>matrix = 3, src_name = ''d''\<rparr>, \<lparr>matrix = 4, src_name = ''e''\<rparr>,
       \<lparr>matrix = 5, src_name = ''f''\<rparr>] =
     Inr [Imshow 0 1, SetTitle 0 ''a b'', Imshow 1 2, SetTitle 1 ''c'',
          Imshow 2 3, SetTitle 2 ''d'', Imshow 3 4, SetTitle 3 ''e'', Show] \<and>
   length [\<lparr>matrix = 1::nat, src_name = ''a_b''\<rparr>] = 1 \<and>
   matrix_cell plt_subplots wrap_short [\<lparr>matrix = 1::nat, src_name = ''a_b''\<rparr>] =
     Inl (AtAxesIndexing 0, TypeError) \<and>
   matrix_cell plt_subplots wrap_short ([] :: nat feature list) =
     Inl (AtSubplots, ValueError ''Number of columns must be a positive integer, not 0'')"
  using matrix_cell_axes [of "[\<lparr>matrix = 1::nat, src_name = ''a_b''\<rparr>, \<lparr>matrix = 2, src_name = ''c''\<rparr>,
       \<lparr>matrix = 3, src_name = ''d''\<rparr>, \<lparr>matrix = 4, src_name = ''e''\<rparr>,
       \<lparr>matrix = 5, src_name = ''f''\<rparr>]" wrap_short plt_subplots]
    matrix_cell_axes [of "[\<lparr>matrix = 1::nat, src_name = ''a_b''\<rparr>]" wrap_short plt_subplots]
    matrix_cell_axes [of "[] :: nat feature list" wrap_short plt_subplots]
  by (simp add: enumerate_list_def upt_rec titleformat_def wrap_short_def str_replace_def
      matrix_cell_def plt_subplots_def)

end
